theory Spec2Isabelle
  imports Main
begin

section \<open>Python values and failures\<close>

text \<open>
  The helpers of \<^verbatim>\<open>export_helpers.py\<close> read nested job dictionaries. Two
  built-in exceptions decide their behaviour: subscripting a dict with an absent key
  raises \<^verbatim>\<open>KeyError\<close>, subscripting a list out of range raises
  \<^verbatim>\<open>IndexError\<close>. Neither is a subclass of the other, so
  \<^verbatim>\<open>except IndexError\<close> lets a \<^verbatim>\<open>KeyError\<close> pass and vice versa.
  Subscripting a string with a string raises \<^verbatim>\<open>TypeError\<close>.

  A function that can raise returns \<open>error + 'a\<close>, with \<open>Inl\<close> for the exception that
  leaves it. Records written with \<^verbatim>\<open>logger.warning\<close> are returned next to the result,
  in the order they are written; the debug records, which no caller reads, are left out.
\<close>

datatype error = KeyError string | IndexError | TypeError

text \<open>\<^verbatim>\<open>d[k]\<close> on a dict.\<close>

definition getitem :: "(string \<rightharpoonup> 'v) \<Rightarrow> string \<Rightarrow> error + 'v" where
  "getitem d k = (case d k of None \<Rightarrow> Inl (KeyError k) | Some v \<Rightarrow> Inr v)"

text \<open>\<^verbatim>\<open>xs[0]\<close> and \<^verbatim>\<open>xs[-1]\<close> on a list.\<close>

definition first_item :: "'a list \<Rightarrow> error + 'a" where
  "first_item xs = (case xs of [] \<Rightarrow> Inl IndexError | x # _ \<Rightarrow> Inr x)"

definition last_item :: "'a list \<Rightarrow> error + 'a" where
  "last_item xs = (if xs = [] then Inl IndexError else Inr (last xs))"

text \<open>
  \<^verbatim>\<open>str.lower()\<close> and \<^verbatim>\<open>str.upper()\<close>. Strings are taken as ASCII text;
  on ASCII the two methods change the 26 letters and nothing else. Characters outside
  ASCII are left as they are by this model.
\<close>

definition lower_char :: "char \<Rightarrow> char" where
  "lower_char c =
     (case map_of (zip ''ABCDEFGHIJKLMNOPQRSTUVWXYZ'' ''abcdefghijklmnopqrstuvwxyz'') c of
        Some d \<Rightarrow> d
      | None \<Rightarrow> c)"

definition upper_char :: "char \<Rightarrow> char" where
  "upper_char c =
     (case map_of (zip ''abcdefghijklmnopqrstuvwxyz'' ''ABCDEFGHIJKLMNOPQRSTUVWXYZ'') c of
        Some d \<Rightarrow> d
      | None \<Rightarrow> c)"

definition lower :: "string \<Rightarrow> string" where
  "lower s = map lower_char s"

definition upper :: "string \<Rightarrow> string" where
  "upper s = map upper_char s"

section \<open>The job configuration\<close>

text \<open>
  One entry of \<^verbatim>\<open>Output["Calculations"]\<close> and the \<^verbatim>\<open>Output\<close> section
  itself, with the keys the code reads. The code reads each of these keys
  unconditionally, so the sections are taken with all of them present and are records;
  the flags are Booleans and the names are strings.
\<close>

record calculation =
  Type :: string
  CreateProperty :: bool
  CreateZoneMap :: bool

record out_input =
  Prefix :: string
  UseGas :: bool
  UseOil :: bool
  MapOutput :: string
  Calculations :: "calculation list"

text \<open>
  The \<^verbatim>\<open>Input\<close> section is read key by key, and keys may be absent: it stays a
  dict from key to a sequence of names.
\<close>

type_synonym in_dict = "string \<rightharpoonup> string list"

text \<open>
  The selectors dict built by \<^verbatim>\<open>_define_selectors\<close> holds two kinds of values:
  a nested dict with key \<^verbatim>\<open>filters\<close> and possibly key \<^verbatim>\<open>parameter\<close>,
  and a plain string.
\<close>

datatype selector =
  Selector (filters: "string list") (parameter: "string option")
| Literal string

type_synonym selectors = "string \<rightharpoonup> selector"

text \<open>
  One variable entry of a group of the \<^verbatim>\<open>Variables\<close> section. \<^verbatim>\<open>DataInput\<close>
  is a sequence of paths, each a sequence of names; the table values are of any type
  \<open>'tv\<close>, the code only passes them on.
\<close>

record 'tv variable =
  Name :: string
  InputSource :: string
  TableValues :: 'tv
  InputType :: string
  DataInput :: "string list list"

text \<open>
  What \<^verbatim>\<open>_define_variables\<close> stores under \<^verbatim>\<open>values\<close>: the entry's own table
  values, the string \<^verbatim>\<open>"hidden"\<close>, or the dict \<^verbatim>\<open>{"property": propname}\<close>.
\<close>

datatype 'tv var_values = Table 'tv | Hidden | Property string

record 'tv var_definition =
  applies :: string
  values_of :: "'tv var_values"

section \<open>Prefixes\<close>

definition define_prefixes :: "'a out_input_scheme \<Rightarrow> string list" where
  "define_prefixes out_input =
     (let prefix = Prefix out_input;
          prefix = (if prefix \<noteq> [] then prefix @ ''_'' else prefix);
          prefixes = [];
          prefixes = (if UseGas out_input then prefixes @ [prefix @ ''Gas_''] else prefixes);
          prefixes = (if UseOil out_input then prefixes @ [prefix @ ''Oil_''] else prefixes)
      in prefixes)"

section \<open>Maps and properties of the output section\<close>

record collated =
  maps :: "string list"
  properties :: "string list"
  map_location :: string
  map_subfolders :: "string list"

text \<open>
  The inner loop over the prefixes and the outer loop over the calculations, each
  carrying the two lists \<^verbatim>\<open>properties\<close> and \<^verbatim>\<open>maps\<close> that the body appends to.
\<close>

fun prefix_loop ::
  "calculation \<Rightarrow> string list \<Rightarrow> string list \<times> string list \<Rightarrow> string list \<times> string list"
where
  "prefix_loop calculation [] (props, mps) = (props, mps)"
| "prefix_loop calculation (prfx # rest) (props, mps) =
     (let props = (if CreateProperty calculation
                   then props @ [prfx @ lower (Type calculation)] else props);
          mps = (if CreateZoneMap calculation
                 then mps @ [prfx @ upper (Type calculation)] else mps)
      in prefix_loop calculation rest (props, mps))"

fun calculation_loop ::
  "calculation list \<Rightarrow> string list \<Rightarrow> string list \<times> string list \<Rightarrow> string list \<times> string list"
where
  "calculation_loop [] prfxs acc = acc"
| "calculation_loop (calculation # rest) prfxs acc =
     calculation_loop rest prfxs (prefix_loop calculation prfxs acc)"

text \<open>\<^verbatim>\<open>selectors["Zone"]["filters"]\<close>.\<close>

definition zone_filters :: "selectors \<Rightarrow> error + string list" where
  "zone_filters sel =
     (case getitem sel ''Zone'' of
        Inl e \<Rightarrow> Inl e
      | Inr (Selector fs p) \<Rightarrow> Inr fs
      | Inr (Literal s) \<Rightarrow> Inl TypeError)"

definition define_output :: "out_input \<Rightarrow> selectors \<Rightarrow> error + collated" where
  "define_output out_input sel =
     (let out_location = lower (MapOutput out_input);
          calculations = Calculations out_input;
          prefixes = define_prefixes out_input;
          (props, mps) = calculation_loop calculations prefixes ([], [])
      in case zone_filters sel of
           Inl e \<Rightarrow> Inl e
         | Inr subfolders \<Rightarrow>
             Inr \<lparr>maps = mps, properties = props, map_location = out_location,
                  map_subfolders = subfolders\<rparr>)"

section \<open>Variables\<close>

text \<open>
  \<^verbatim>\<open>variables_input\<close> is a dict from group name to a list of variable entries;
  \<^verbatim>\<open>.values()\<close> walks it in insertion order, so it is kept as an ordered list of
  (key, value) pairs.
\<close>

type_synonym 'tv variables_input = "(string \<times> 'tv variable list) list"

type_synonym 'tv var_definitions = "string \<rightharpoonup> 'tv var_definition"

text \<open>
  The body of the inner loop, on the two accumulators \<^verbatim>\<open>var_definitions\<close> and
  \<^verbatim>\<open>variable_parameters\<close>. \<^verbatim>\<open>variable["DataInput"][0][-1]\<close> raises
  \<^verbatim>\<open>IndexError\<close> when the first element of a non-empty \<^verbatim>\<open>DataInput\<close> is
  itself empty; nothing in the function catches it.
\<close>

definition variable_body ::
  "'tv variable \<Rightarrow> 'tv var_definitions \<times> string list
     \<Rightarrow> error + ('tv var_definitions \<times> string list)"
where
  "variable_body variable acc =
     (let (var_defs, variable_parameters) = acc;
          name = Name variable;
          source = InputSource variable;
          table_values = Table (TableValues variable)
      in if DataInput variable \<noteq> [] then
           (case first_item (DataInput variable) of
              Inl e \<Rightarrow> Inl e
            | Inr path \<Rightarrow>
                (case last_item path of
                   Inl e \<Rightarrow> Inl e
                 | Inr propname \<Rightarrow>
                     (let table_values = Property propname;
                          variable_parameters =
                            (if propname \<notin> set variable_parameters
                             then variable_parameters @ [propname]
                             else variable_parameters)
                      in Inr (var_defs(name \<mapsto>
                                \<lparr>applies = InputType variable, values_of = table_values\<rparr>),
                              variable_parameters))))
         else
           (let table_values = (if source = ''REGION_MODEL'' then Hidden else table_values)
            in Inr (var_defs(name \<mapsto>
                      \<lparr>applies = InputType variable, values_of = table_values\<rparr>),
                    variable_parameters)))"

fun var_group_loop ::
  "'tv variable list \<Rightarrow> 'tv var_definitions \<times> string list
     \<Rightarrow> error + ('tv var_definitions \<times> string list)"
where
  "var_group_loop [] acc = Inr acc"
| "var_group_loop (variable # rest) acc =
     (case variable_body variable acc of
        Inl e \<Rightarrow> Inl e
      | Inr acc' \<Rightarrow> var_group_loop rest acc')"

fun var_groups_loop ::
  "'tv variable list list \<Rightarrow> 'tv var_definitions \<times> string list
     \<Rightarrow> error + ('tv var_definitions \<times> string list)"
where
  "var_groups_loop [] acc = Inr acc"
| "var_groups_loop (var_group # rest) acc =
     (case var_group_loop var_group acc of
        Inl e \<Rightarrow> Inl e
      | Inr acc' \<Rightarrow> var_groups_loop rest acc')"

definition define_variables ::
  "'tv variables_input \<Rightarrow> error + ('tv var_definitions \<times> string list)"
where
  "define_variables variables_input =
     var_groups_loop (map snd variables_input) (Map.empty, [])"

section \<open>Selectors\<close>

definition possible_selectors :: "string list" where
  "possible_selectors = [''Zone'', ''Region'', ''Facies'']"

text \<open>
  The dict display inside the \<^verbatim>\<open>try\<close>: \<^verbatim>\<open>in_dict[f"Selected{key}Names"]\<close> is
  evaluated first, then \<^verbatim>\<open>in_dict[f"{key}Property"][-1]\<close>.
\<close>

definition selector_try :: "in_dict \<Rightarrow> string \<Rightarrow> error + selector" where
  "selector_try in_dict key =
     (case getitem in_dict (''Selected'' @ key @ ''Names'') of
        Inl e \<Rightarrow> Inl e
      | Inr names \<Rightarrow>
          (case getitem in_dict (key @ ''Property'') of
             Inl e \<Rightarrow> Inl e
           | Inr prop \<Rightarrow>
               (case last_item prop of
                  Inl e \<Rightarrow> Inl e
                | Inr p \<Rightarrow> Inr (Selector names (Some p)))))"

text \<open>The loop with its handler: only \<^verbatim>\<open>IndexError\<close> is caught.\<close>

fun selector_loop ::
  "in_dict \<Rightarrow> string list \<Rightarrow> selectors \<times> string list \<Rightarrow> error + (selectors \<times> string list)"
where
  "selector_loop in_dict [] acc = Inr acc"
| "selector_loop in_dict (key # rest) (sel, warnings) =
     (case selector_try in_dict key of
        Inr entry \<Rightarrow> selector_loop in_dict rest (sel(key \<mapsto> entry), warnings)
      | Inl IndexError \<Rightarrow>
          selector_loop in_dict rest (sel, warnings @ [''No selectors for '' @ key])
      | Inl e \<Rightarrow> Inl e)"

definition define_selectors :: "in_dict \<Rightarrow> error + (selectors \<times> string list)" where
  "define_selectors in_dict =
     (case selector_loop in_dict (tl possible_selectors) (Map.empty, []) of
        Inl e \<Rightarrow> Inl e
      | Inr (sel, warnings) \<Rightarrow>
          (case getitem in_dict ''SelectedZoneNames'' of
             Inl e \<Rightarrow> Inl e
           | Inr zone_names \<Rightarrow>
               Inr (sel ++ [''Zone'' \<mapsto> Selector zone_names None,
                            ''parameter'' \<mapsto> Literal ''subgrids''],
                    warnings)))"

section \<open>The volumetrics table\<close>

text \<open>
  A data frame is its ordered list of columns, each a label with the column's values
  (of any type \<open>'d\<close>). The host's table store \<^verbatim>\<open>project.volumetric_tables\<close> is a
  dict from table name to table; \<^verbatim>\<open>get_data_table().to_dict()\<close> followed by
  \<^verbatim>\<open>pd.DataFrame.from_dict\<close> hands the table's columns over as they are.
\<close>

type_synonym 'd frame = "(string \<times> 'd) list"

record 'd project =
  volumetric_tables :: "string \<rightharpoonup> 'd frame"

definition RENAME_VOLUMES :: "(string \<times> string) list" where
  "RENAME_VOLUMES =
     [(''Proj. real.'', ''REAL''),
      (''Zone'', ''ZONE''),
      (''Segment'', ''REGION''),
      (''Boundary'', ''LICENSE''),
      (''Facies'', ''FACIES''),
      (''BulkOil'', ''BULK_OIL''),
      (''NetOil'', ''NET_OIL''),
      (''PoreOil'', ''PORV_OIL''),
      (''HCPVOil'', ''HCPV_OIL''),
      (''STOIIP'', ''STOIIP_OIL''),
      (''AssociatedGas'', ''ASSOCIATEDGAS_OIL''),
      (''BulkGas'', ''BULK_GAS''),
      (''PoreGas'', ''PORV_GAS''),
      (''HCPVGas'', ''HCPV_GAS''),
      (''GIIP'', ''GIIP_GAS''),
      (''AssociatedLiquid'', ''ASSOCIATEDOIL_GAS''),
      (''Bulk'', ''BULK_TOTAL''),
      (''Net'', ''NET_TOTAL''),
      (''Pore'', ''PORV_TOTAL'')]"

text \<open>
  \<^verbatim>\<open>DataFrame.rename(columns=mapping)\<close> replaces each label that is a key of the
  mapping and keeps the others. \<^verbatim>\<open>DataFrame.drop(label, axis=1)\<close> removes every
  column with that label and raises \<^verbatim>\<open>KeyError\<close> when there is none.
\<close>

definition rename_label :: "(string \<times> string) list \<Rightarrow> string \<Rightarrow> string" where
  "rename_label mapping label =
     (case map_of mapping label of Some new \<Rightarrow> new | None \<Rightarrow> label)"

definition rename :: "(string \<times> string) list \<Rightarrow> 'd frame \<Rightarrow> 'd frame" where
  "rename mapping volumes = map (\<lambda>(label, col). (rename_label mapping label, col)) volumes"

definition drop_column :: "string \<Rightarrow> 'd frame \<Rightarrow> error + 'd frame" where
  "drop_column label volumes =
     (if label \<in> set (map fst volumes)
      then Inr (filter (\<lambda>(l, col). l \<noteq> label) volumes)
      else Inl (KeyError label))"

type_synonym report_params = "(string \<rightharpoonup> string) list"

text \<open>The statements inside the \<^verbatim>\<open>try\<close>, in evaluation order.\<close>

definition volumes_try :: "report_params \<Rightarrow> 'd project \<Rightarrow> error + 'd frame" where
  "volumes_try report_params project =
     (case first_item report_params of
        Inl e \<Rightarrow> Inl e
      | Inr report \<Rightarrow>
          (case getitem report ''ReportTableName'' of
             Inl e \<Rightarrow> Inl e
           | Inr table_name \<Rightarrow>
               (case getitem (volumetric_tables project) table_name of
                  Inl e \<Rightarrow> Inl e
                | Inr volumes \<Rightarrow> drop_column ''REAL'' (rename RENAME_VOLUMES volumes))))"

text \<open>The handler: only \<^verbatim>\<open>KeyError\<close> is caught.\<close>

definition get_volumetrics ::
  "report_params \<Rightarrow> 'd project \<Rightarrow> error + ('d frame option \<times> string list)"
where
  "get_volumetrics report_params project =
     (case volumes_try report_params project of
        Inr volumes \<Rightarrow> Inr (Some volumes, [])
      | Inl (KeyError k) \<Rightarrow> Inr (None, [''No volume table attached''])
      | Inl e \<Rightarrow> Inl e)"

section \<open>The export plan of a volumetrics job\<close>

text \<open>
  The job arguments as \<^verbatim>\<open>utils.get_job_arguments\<close> returns them: four sections, each
  a list whose first element is used.
\<close>

record 'tv params =
  Input :: "in_dict list"
  Output :: "out_input list"
  Variables :: "'tv variables_input list"
  Report :: report_params

text \<open>\<^verbatim>\<open>report_output\<close> once \<^verbatim>\<open>__post_init__\<close> has added the key \<^verbatim>\<open>table\<close>.\<close>

record 'd export_plan = collated +
  table :: "'d frame option"

record ('tv, 'd) RmsInplaceVolumes =
  report :: "'d frame option"
  selectors_attr :: selectors
  report_output :: "'d export_plan"
  input_variables :: "'tv var_definitions"

text \<open>
  \<^verbatim>\<open>RmsInplaceVolumes.__post_init__\<close>, from the job arguments and the opened
  project on (both come from the host, through \<^verbatim>\<open>utils\<close>): the sections are read,
  then the table, the selectors, the output and the variables are resolved in that
  order, the additional properties are appended to \<^verbatim>\<open>report_output["properties"]\<close>
  and the table is stored. The first exception ends the construction. Of the object's
  attributes the resolved ones are kept; the warnings of the run come second.
\<close>

definition post_init ::
  "'tv params \<Rightarrow> 'd project \<Rightarrow> error + (('tv, 'd) RmsInplaceVolumes \<times> string list)"
where
  "post_init prms project =
     (case first_item (Input prms) of Inl e \<Rightarrow> Inl e | Inr inp \<Rightarrow>
      case first_item (Output prms) of Inl e \<Rightarrow> Inl e | Inr outp \<Rightarrow>
      case first_item (Variables prms) of Inl e \<Rightarrow> Inl e | Inr vars \<Rightarrow>
      case get_volumetrics (Report prms) project of Inl e \<Rightarrow> Inl e | Inr (rep, w1) \<Rightarrow>
      case define_selectors inp of Inl e \<Rightarrow> Inl e | Inr (sel, w2) \<Rightarrow>
      case define_output outp sel of Inl e \<Rightarrow> Inl e | Inr rep_out \<Rightarrow>
      case define_variables vars of Inl e \<Rightarrow> Inl e | Inr (var_defs, additional_props) \<Rightarrow>
        (let rep_out = rep_out\<lparr>properties := properties rep_out @ additional_props\<rparr>;
             plan = collated.extend rep_out \<lparr>table = rep\<rparr>
         in Inr (\<lparr>report = rep, selectors_attr = sel, report_output = plan,
                  input_variables = var_defs\<rparr>,
                 w1 @ w2)))"

section \<open>Notions used to state the properties\<close>

text \<open>
  The name a data-linked variable refers to, \<^verbatim>\<open>variable["DataInput"][0][-1]\<close>, and the
  names referred to by a sequence of variables, in order, one per variable with a
  non-empty \<^verbatim>\<open>DataInput\<close>.
\<close>

definition data_property :: "'tv variable \<Rightarrow> string" where
  "data_property variable = last (hd (DataInput variable))"

definition referenced :: "'tv variable list \<Rightarrow> string list" where
  "referenced vars = map data_property (filter (\<lambda>v. DataInput v \<noteq> []) vars)"

text \<open>
  Deduplication with insertion order preserved: of every element the first occurrence
  stays, where it is.
\<close>

definition first_occurrences :: "'a list \<Rightarrow> 'a list" where
  "first_occurrences xs = rev (remdups (rev xs))"

section \<open>Properties of the prefixes and of the output\<close>

lemma prefix_loop_eq:
  "prefix_loop calc prfxs (props, mps) =
     (props @ [prfx @ lower (Type calc). prfx \<leftarrow> prfxs, CreateProperty calc],
      mps @ [prfx @ upper (Type calc). prfx \<leftarrow> prfxs, CreateZoneMap calc])"
  by (induction prfxs arbitrary: props mps) simp_all

lemma calculation_loop_eq:
  "calculation_loop calcs prfxs (props, mps) =
     (props @ [prfx @ lower (Type calc). calc \<leftarrow> calcs, prfx \<leftarrow> prfxs, CreateProperty calc],
      mps @ [prfx @ upper (Type calc). calc \<leftarrow> calcs, prfx \<leftarrow> prfxs, CreateZoneMap calc])"
  by (induction calcs arbitrary: props mps) (simp_all add: prefix_loop_eq)

lemma define_output_eq:
  "define_output out_input sel =
     (case zone_filters sel of
        Inl e \<Rightarrow> Inl e
      | Inr fs \<Rightarrow>
          Inr \<lparr>maps = [prfx @ upper (Type calc).
                        calc \<leftarrow> Calculations out_input, prfx \<leftarrow> define_prefixes out_input,
                        CreateZoneMap calc],
               properties = [prfx @ lower (Type calc).
                        calc \<leftarrow> Calculations out_input, prfx \<leftarrow> define_prefixes out_input,
                        CreateProperty calc],
               map_location = lower (MapOutput out_input),
               map_subfolders = fs\<rparr>)"
  by (simp add: define_output_def Let_def calculation_loop_eq split: sum.splits)

lemma define_prefixes_eq:
  "define_prefixes out_input =
     (if UseGas out_input
      then [(if Prefix out_input = [] then [] else Prefix out_input @ ''_'') @ ''Gas_'']
      else []) @
     (if UseOil out_input
      then [(if Prefix out_input = [] then [] else Prefix out_input @ ''_'') @ ''Oil_'']
      else [])"
  by (simp add: define_prefixes_def Let_def)

lemma define_prefixes_nonempty: "prfx \<in> set (define_prefixes out_input) \<Longrightarrow> prfx \<noteq> []"
  by (auto simp add: define_prefixes_eq split: if_splits)

lemma zone_filters_Zone: "zone_filters [''Zone'' \<mapsto> Selector fs p] = Inr fs"
  by (simp add: zone_filters_def getitem_def)

text \<open>
  C4. The prefix builder returns, gas before oil, one entry ending in \<^verbatim>\<open>Gas_\<close> when
  \<^verbatim>\<open>UseGas\<close> holds and one ending in \<^verbatim>\<open>Oil_\<close> when \<^verbatim>\<open>UseOil\<close> holds; each
  entry starts with \<^verbatim>\<open>Prefix\<close> and an underscore when \<^verbatim>\<open>Prefix\<close> is not empty and
  is the bare tag otherwise. With both flags false the result is empty. An empty
  \<^verbatim>\<open>Prefix\<close> with both flags gives \<^verbatim>\<open>["Gas_", "Oil_"]\<close>, the prefix \<^verbatim>\<open>X\<close> gives
  \<^verbatim>\<open>["X_Gas_", "X_Oil_"]\<close>.
\<close>

theorem define_prefixes_spec:
  "define_prefixes out_input =
     (if UseGas out_input
      then [(if Prefix out_input = [] then [] else Prefix out_input @ ''_'') @ ''Gas_'']
      else []) @
     (if UseOil out_input
      then [(if Prefix out_input = [] then [] else Prefix out_input @ ''_'') @ ''Oil_'']
      else [])
   \<and> define_prefixes (out_input\<lparr>UseGas := False, UseOil := False\<rparr>) = []
   \<and> define_prefixes \<lparr>Prefix = [], UseGas = True, UseOil = True,
        MapOutput = m, Calculations = cs\<rparr> = [''Gas_'', ''Oil_'']
   \<and> define_prefixes \<lparr>Prefix = ''X'', UseGas = True, UseOil = True,
        MapOutput = m, Calculations = cs\<rparr> = [''X_Gas_'', ''X_Oil_'']"
  by (simp add: define_prefixes_def Let_def)

text \<open>
  C3, as the code has it. Whenever the selectors hold a \<^verbatim>\<open>Zone\<close> entry, the output
  resolver returns, and its \<^verbatim>\<open>properties\<close> are the names prefix + lowercase(Type),
  one for each calculation with \<^verbatim>\<open>CreateProperty\<close> and each prefix, its
  \<^verbatim>\<open>maps\<close> the names prefix + uppercase(Type), one for each calculation with
  \<^verbatim>\<open>CreateZoneMap\<close> and each prefix, both in calculation-major, prefix-minor order.
  Only \<^verbatim>\<open>Type\<close> is upper-cased, the prefix is left as it is: one calculation
  \<^verbatim>\<open>Stoiip\<close> with both flags and the prefixes \<^verbatim>\<open>["Oil_"]\<close> yields the properties
  \<^verbatim>\<open>["Oil_stoiip"]\<close> and the maps \<^verbatim>\<open>["Oil_STOIIP"]\<close>.
\<close>

theorem define_output_order:
  assumes "zone_filters sel = Inr fs"
  shows "(\<exists>c. define_output out_input sel = Inr c
      \<and> properties c =
          [prfx @ lower (Type calc).
             calc \<leftarrow> Calculations out_input, prfx \<leftarrow> define_prefixes out_input,
             CreateProperty calc]
      \<and> maps c =
          [prfx @ upper (Type calc).
             calc \<leftarrow> Calculations out_input, prfx \<leftarrow> define_prefixes out_input,
             CreateZoneMap calc])
    \<and> calculation_loop [\<lparr>Type = ''Stoiip'', CreateProperty = True, CreateZoneMap = True\<rparr>]
        [''Oil_''] ([], []) = ([''Oil_stoiip''], [''Oil_STOIIP''])"
proof
  show "\<exists>c. define_output out_input sel = Inr c
      \<and> properties c =
          [prfx @ lower (Type calc).
             calc \<leftarrow> Calculations out_input, prfx \<leftarrow> define_prefixes out_input,
             CreateProperty calc]
      \<and> maps c =
          [prfx @ upper (Type calc).
             calc \<leftarrow> Calculations out_input, prfx \<leftarrow> define_prefixes out_input,
             CreateZoneMap calc]"
    using assms by (simp add: define_output_eq)
  show "calculation_loop [\<lparr>Type = ''Stoiip'', CreateProperty = True, CreateZoneMap = True\<rparr>]
        [''Oil_''] ([], []) = ([''Oil_stoiip''], [''Oil_STOIIP''])"
    by (simp add: lower_def upper_def lower_char_def upper_char_def)
qed

theorem define_output_order_witness:
  "zone_filters [''Zone'' \<mapsto> Selector [''Upper'', ''Lower''] None] = Inr [''Upper'', ''Lower'']
   \<and> (\<exists>c. define_output
          \<lparr>Prefix = ''X'', UseGas = True, UseOil = True, MapOutput = ''Clipboard'',
           Calculations = [\<lparr>Type = ''Stoiip'', CreateProperty = True, CreateZoneMap = False\<rparr>,
                           \<lparr>Type = ''Giip'', CreateProperty = True, CreateZoneMap = True\<rparr>]\<rparr>
          [''Zone'' \<mapsto> Selector [''Upper'', ''Lower''] None] = Inr c
        \<and> properties c = [''X_Gas_stoiip'', ''X_Oil_stoiip'', ''X_Gas_giip'', ''X_Oil_giip'']
        \<and> maps c = [''X_Gas_GIIP'', ''X_Oil_GIIP''])"
proof -
  have z: "zone_filters [''Zone'' \<mapsto> Selector [''Upper'', ''Lower''] None]
             = Inr [''Upper'', ''Lower'']"
    by (rule zone_filters_Zone)
  from define_output_order [OF z, of "\<lparr>Prefix = ''X'', UseGas = True, UseOil = True,
           MapOutput = ''Clipboard'',
           Calculations = [\<lparr>Type = ''Stoiip'', CreateProperty = True, CreateZoneMap = False\<rparr>,
                           \<lparr>Type = ''Giip'', CreateProperty = True, CreateZoneMap = True\<rparr>]\<rparr>"]
  have "\<exists>c. define_output
          \<lparr>Prefix = ''X'', UseGas = True, UseOil = True, MapOutput = ''Clipboard'',
           Calculations = [\<lparr>Type = ''Stoiip'', CreateProperty = True, CreateZoneMap = False\<rparr>,
                           \<lparr>Type = ''Giip'', CreateProperty = True, CreateZoneMap = True\<rparr>]\<rparr>
          [''Zone'' \<mapsto> Selector [''Upper'', ''Lower''] None] = Inr c
        \<and> properties c = [''X_Gas_stoiip'', ''X_Oil_stoiip'', ''X_Gas_giip'', ''X_Oil_giip'']
        \<and> maps c = [''X_Gas_GIIP'', ''X_Oil_GIIP'']"
    by (simp add: define_prefixes_eq lower_def upper_def lower_char_def upper_char_def)
  with z show ?thesis by blast
qed

text \<open>
  The example of C3 as the claim gives it fails: the map name keeps the prefix
  \<^verbatim>\<open>Oil_\<close> in mixed case.
\<close>

theorem define_output_maps_counterexample:
  "map_sum id maps
     (define_output
        \<lparr>Prefix = [], UseGas = False, UseOil = True, MapOutput = ''Clipboard'',
         Calculations = [\<lparr>Type = ''Stoiip'', CreateProperty = True, CreateZoneMap = True\<rparr>]\<rparr>
        [''Zone'' \<mapsto> Selector [''Upper''] None]) = Inr [''Oil_STOIIP'']
   \<and> map_sum id maps
     (define_output
        \<lparr>Prefix = [], UseGas = False, UseOil = True, MapOutput = ''Clipboard'',
         Calculations = [\<lparr>Type = ''Stoiip'', CreateProperty = True, CreateZoneMap = True\<rparr>]\<rparr>
        [''Zone'' \<mapsto> Selector [''Upper''] None]) \<noteq> Inr [''OIL_STOIIP'']
   \<and> define_prefixes
        \<lparr>Prefix = [], UseGas = False, UseOil = True, MapOutput = ''Clipboard'',
         Calculations = [\<lparr>Type = ''Stoiip'', CreateProperty = True, CreateZoneMap = True\<rparr>]\<rparr>
       = [''Oil_'']"
  by (simp add: define_output_eq zone_filters_Zone define_prefixes_eq
        upper_def upper_char_def)

text \<open>
  C5. When both \<^verbatim>\<open>UseGas\<close> and \<^verbatim>\<open>UseOil\<close> are false the output resolver produces
  no maps and no properties, whatever the flags of the calculations; and every entry of
  its maps and properties is a prefix of the prefix set, which is never the empty
  string, followed by the upper-cased or lower-cased \<^verbatim>\<open>Type\<close> of a calculation.
\<close>

theorem define_output_prefixed:
  assumes "zone_filters sel = Inr fs"
  shows "\<exists>c. define_output out_input sel = Inr c
     \<and> (\<not> UseGas out_input \<and> \<not> UseOil out_input \<longrightarrow> maps c = [] \<and> properties c = [])
     \<and> (\<forall>n\<in>set (maps c). \<exists>prfx\<in>set (define_prefixes out_input).
           \<exists>calc\<in>set (Calculations out_input). prfx \<noteq> [] \<and> n = prfx @ upper (Type calc))
     \<and> (\<forall>n\<in>set (properties c). \<exists>prfx\<in>set (define_prefixes out_input).
           \<exists>calc\<in>set (Calculations out_input). prfx \<noteq> [] \<and> n = prfx @ lower (Type calc))"
proof -
  let ?c = "\<lparr>maps = [prfx @ upper (Type calc).
                        calc \<leftarrow> Calculations out_input, prfx \<leftarrow> define_prefixes out_input,
                        CreateZoneMap calc],
             properties = [prfx @ lower (Type calc).
                        calc \<leftarrow> Calculations out_input, prfx \<leftarrow> define_prefixes out_input,
                        CreateProperty calc],
             map_location = lower (MapOutput out_input),
             map_subfolders = fs\<rparr>"
  have ret: "define_output out_input sel = Inr ?c"
    using assms by (simp add: define_output_eq)
  have none: "\<not> UseGas out_input \<and> \<not> UseOil out_input \<longrightarrow> maps ?c = [] \<and> properties ?c = []"
    by (simp add: define_prefixes_eq)
  have mps: "\<forall>n\<in>set (maps ?c). \<exists>prfx\<in>set (define_prefixes out_input).
           \<exists>calc\<in>set (Calculations out_input). prfx \<noteq> [] \<and> n = prfx @ upper (Type calc)"
    by (auto dest: define_prefixes_nonempty split: if_splits)
  have props: "\<forall>n\<in>set (properties ?c). \<exists>prfx\<in>set (define_prefixes out_input).
           \<exists>calc\<in>set (Calculations out_input). prfx \<noteq> [] \<and> n = prfx @ lower (Type calc)"
    by (auto dest: define_prefixes_nonempty split: if_splits)
  from ret none mps props show ?thesis by blast
qed

theorem define_output_prefixed_witness:
  "zone_filters [''Zone'' \<mapsto> Selector [''Upper''] None] = Inr [''Upper'']
   \<and> (\<exists>c. define_output
          \<lparr>Prefix = ''X'', UseGas = False, UseOil = False, MapOutput = ''Clipboard'',
           Calculations = [\<lparr>Type = ''Stoiip'', CreateProperty = True, CreateZoneMap = True\<rparr>]\<rparr>
          [''Zone'' \<mapsto> Selector [''Upper''] None] = Inr c
        \<and> maps c = [] \<and> properties c = [])
   \<and> (\<exists>c. define_output
          \<lparr>Prefix = ''X'', UseGas = True, UseOil = False, MapOutput = ''Clipboard'',
           Calculations = [\<lparr>Type = ''Stoiip'', CreateProperty = True, CreateZoneMap = True\<rparr>]\<rparr>
          [''Zone'' \<mapsto> Selector [''Upper''] None] = Inr c
        \<and> maps c = [''X_Gas_STOIIP'']
        \<and> properties c = [''X_Gas_stoiip''])"
proof -
  have z: "zone_filters [''Zone'' \<mapsto> Selector [''Upper''] None] = Inr [''Upper'']"
    by (rule zone_filters_Zone)
  from define_output_prefixed [OF z, of "\<lparr>Prefix = ''X'', UseGas = False, UseOil = False,
           MapOutput = ''Clipboard'',
           Calculations = [\<lparr>Type = ''Stoiip'', CreateProperty = True, CreateZoneMap = True\<rparr>]\<rparr>"]
  have a: "\<exists>c. define_output
          \<lparr>Prefix = ''X'', UseGas = False, UseOil = False, MapOutput = ''Clipboard'',
           Calculations = [\<lparr>Type = ''Stoiip'', CreateProperty = True, CreateZoneMap = True\<rparr>]\<rparr>
          [''Zone'' \<mapsto> Selector [''Upper''] None] = Inr c
        \<and> maps c = [] \<and> properties c = []"
    by auto
  have b: "\<exists>c. define_output
          \<lparr>Prefix = ''X'', UseGas = True, UseOil = False, MapOutput = ''Clipboard'',
           Calculations = [\<lparr>Type = ''Stoiip'', CreateProperty = True, CreateZoneMap = True\<rparr>]\<rparr>
          [''Zone'' \<mapsto> Selector [''Upper''] None] = Inr c
        \<and> maps c = [''X_Gas_STOIIP'']
        \<and> properties c = [''X_Gas_stoiip'']"
    by (simp add: define_output_eq z define_prefixes_eq lower_def upper_def
          lower_char_def upper_char_def)
  from z a b show ?thesis by blast
qed

section \<open>Properties of the selectors\<close>

lemma selector_try_cases:
  "selector_try in_dict key =
     (case in_dict (''Selected'' @ key @ ''Names'') of
        None \<Rightarrow> Inl (KeyError (''Selected'' @ key @ ''Names''))
      | Some names \<Rightarrow>
          (case in_dict (key @ ''Property'') of
             None \<Rightarrow> Inl (KeyError (key @ ''Property''))
           | Some prop \<Rightarrow>
               if prop = [] then Inl IndexError
               else Inr (Selector names (Some (last prop)))))"
  by (simp add: selector_try_def getitem_def last_item_def split: option.splits)

text \<open>What the two passes of the loop leave behind when all four keys are present.\<close>

lemma selector_loop_present:
  assumes "in_dict ''SelectedRegionNames'' = Some rn" "in_dict ''RegionProperty'' = Some rp"
    and "in_dict ''SelectedFaciesNames'' = Some fn" "in_dict ''FaciesProperty'' = Some fp"
  shows "selector_loop in_dict (tl possible_selectors) (Map.empty, []) =
     Inr ((if fp = []
           then (if rp = [] then Map.empty
                 else [''Region'' \<mapsto> Selector rn (Some (last rp))])
           else (if rp = [] then Map.empty
                 else [''Region'' \<mapsto> Selector rn (Some (last rp))])
                  (''Facies'' \<mapsto> Selector fn (Some (last fp)))),
          (if rp = [] then [''No selectors for Region''] else []) @
          (if fp = [] then [''No selectors for Facies''] else []))"
  using assms by (simp add: possible_selectors_def selector_try_cases)

lemma selector_loop_absent:
  assumes "k \<in> set [''SelectedRegionNames'', ''RegionProperty'',
                      ''SelectedFaciesNames'', ''FaciesProperty'']"
    and "in_dict k = None"
  shows "\<exists>k'. selector_loop in_dict (tl possible_selectors) (Map.empty, []) = Inl (KeyError k')"
  using assms
  by (auto simp add: possible_selectors_def selector_try_cases split: option.splits)

lemma define_selectors_result:
  assumes "define_selectors in_dict = Inr (sel, warnings)"
  shows "\<exists>zone_names. in_dict ''SelectedZoneNames'' = Some zone_names \<and>
           sel ''Zone'' = Some (Selector zone_names None) \<and>
           sel ''parameter'' = Some (Literal ''subgrids'')"
  using assms
  by (auto simp add: define_selectors_def getitem_def split: sum.splits option.splits)

lemma define_selectors_present:
  assumes "in_dict ''SelectedZoneNames'' = Some zone_names"
    and "in_dict ''SelectedRegionNames'' = Some rn" "in_dict ''RegionProperty'' = Some rp"
    and "in_dict ''SelectedFaciesNames'' = Some fn" "in_dict ''FaciesProperty'' = Some fp"
  shows "\<exists>sel. define_selectors in_dict =
            Inr (sel, (if rp = [] then [''No selectors for Region''] else []) @
                      (if fp = [] then [''No selectors for Facies''] else []))
     \<and> sel ''Region'' = (if rp = [] then None else Some (Selector rn (Some (last rp))))
     \<and> sel ''Facies'' = (if fp = [] then None else Some (Selector fn (Some (last fp))))
     \<and> sel ''Zone'' = Some (Selector zone_names None)
     \<and> sel ''parameter'' = Some (Literal ''subgrids'')"
  using assms
  by (simp add: define_selectors_def getitem_def
        selector_loop_present [OF assms(2) assms(3) assms(4) assms(5)])

lemma define_selectors_absent:
  assumes "k \<in> set [''SelectedRegionNames'', ''RegionProperty'',
                      ''SelectedFaciesNames'', ''FaciesProperty'', ''SelectedZoneNames'']"
    and "in_dict k = None"
  shows "\<exists>k'. define_selectors in_dict = Inl (KeyError k')"
proof (cases "k = ''SelectedZoneNames''")
  case True
  with assms(2) have zone: "in_dict ''SelectedZoneNames'' = None" by simp
  show ?thesis
  proof (cases "selector_loop in_dict (tl possible_selectors) (Map.empty, [])")
    case (Inl e)
    then have "\<exists>k'. e = KeyError k'"
      by (auto simp add: possible_selectors_def selector_try_cases
            split: option.splits if_splits)
    with Inl show ?thesis by (auto simp add: define_selectors_def)
  next
    case (Inr acc)
    with zone show ?thesis
      by (cases acc) (simp add: define_selectors_def getitem_def)
  qed
next
  case False
  with assms(1) have "k \<in> set [''SelectedRegionNames'', ''RegionProperty'',
                      ''SelectedFaciesNames'', ''FaciesProperty'']"
    by auto
  from selector_loop_absent [where k = k and in_dict = in_dict, OF this assms(2)] show ?thesis
    by (auto simp add: define_selectors_def)
qed

text \<open>
  C2, as the code has it. When the input mapping holds \<^verbatim>\<open>SelectedZoneNames\<close> and, for
  \<^verbatim>\<open>Region\<close> and for \<^verbatim>\<open>Facies\<close>, both \<^verbatim>\<open>Selected{Key}Names\<close> and
  \<^verbatim>\<open>{Key}Property\<close>, the selector resolver does not raise: a key whose property list
  is empty (the index failure) is left out and the warning for it is recorded, a key
  whose property list is not empty gets its filters and the last property as parameter,
  and the \<^verbatim>\<open>Zone\<close> filters are the input's \<^verbatim>\<open>SelectedZoneNames\<close>. An absent key is
  not handled: when one of the five keys is missing the resolver raises
  \<^verbatim>\<open>KeyError\<close>.
\<close>

theorem define_selectors_index_failure:
  "(in_dict ''SelectedZoneNames'' = Some zone_names \<and>
    in_dict ''SelectedRegionNames'' = Some rn \<and> in_dict ''RegionProperty'' = Some rp \<and>
    in_dict ''SelectedFaciesNames'' = Some fn \<and> in_dict ''FaciesProperty'' = Some fp
    \<longrightarrow> (\<exists>sel. define_selectors in_dict =
            Inr (sel, (if rp = [] then [''No selectors for Region''] else []) @
                      (if fp = [] then [''No selectors for Facies''] else []))
          \<and> sel ''Region'' = (if rp = [] then None else Some (Selector rn (Some (last rp))))
          \<and> sel ''Facies'' = (if fp = [] then None else Some (Selector fn (Some (last fp))))
          \<and> sel ''Zone'' = Some (Selector zone_names None)))
   \<and> (k \<in> set [''SelectedRegionNames'', ''RegionProperty'',
                 ''SelectedFaciesNames'', ''FaciesProperty'', ''SelectedZoneNames'']
      \<and> in_dict k = None
    \<longrightarrow> (\<exists>k'. define_selectors in_dict = Inl (KeyError k')))"
proof (intro conjI impI)
  assume "in_dict ''SelectedZoneNames'' = Some zone_names \<and>
    in_dict ''SelectedRegionNames'' = Some rn \<and> in_dict ''RegionProperty'' = Some rp \<and>
    in_dict ''SelectedFaciesNames'' = Some fn \<and> in_dict ''FaciesProperty'' = Some fp"
  then have "in_dict ''SelectedZoneNames'' = Some zone_names"
    and "in_dict ''SelectedRegionNames'' = Some rn" and "in_dict ''RegionProperty'' = Some rp"
    and "in_dict ''SelectedFaciesNames'' = Some fn" and "in_dict ''FaciesProperty'' = Some fp"
    by simp_all
  from define_selectors_present [where in_dict = in_dict, OF this]
  show "\<exists>sel. define_selectors in_dict =
            Inr (sel, (if rp = [] then [''No selectors for Region''] else []) @
                      (if fp = [] then [''No selectors for Facies''] else []))
          \<and> sel ''Region'' = (if rp = [] then None else Some (Selector rn (Some (last rp))))
          \<and> sel ''Facies'' = (if fp = [] then None else Some (Selector fn (Some (last fp))))
          \<and> sel ''Zone'' = Some (Selector zone_names None)"
    by blast
next
  assume "k \<in> set [''SelectedRegionNames'', ''RegionProperty'',
                 ''SelectedFaciesNames'', ''FaciesProperty'', ''SelectedZoneNames'']
      \<and> in_dict k = None"
  then show "\<exists>k'. define_selectors in_dict = Inl (KeyError k')"
    using define_selectors_absent by blast
qed

text \<open>
  An input with an empty \<^verbatim>\<open>RegionProperty\<close>: no \<^verbatim>\<open>Region\<close> key, one warning,
  \<^verbatim>\<open>Facies\<close> and \<^verbatim>\<open>Zone\<close> resolved. The same input without \<^verbatim>\<open>FaciesProperty\<close>
  raises.
\<close>

theorem define_selectors_index_failure_witness:
  "(\<exists>sel. define_selectors
        [''SelectedZoneNames'' \<mapsto> [''Upper'', ''Lower''],
         ''SelectedRegionNames'' \<mapsto> [''East''], ''RegionProperty'' \<mapsto> [],
         ''SelectedFaciesNames'' \<mapsto> [''Sand''], ''FaciesProperty'' \<mapsto> [''Grid'', ''Facies'']]
      = Inr (sel, [''No selectors for Region''])
     \<and> sel ''Region'' = None
     \<and> sel ''Facies'' = Some (Selector [''Sand''] (Some ''Facies''))
     \<and> sel ''Zone'' = Some (Selector [''Upper'', ''Lower''] None))
   \<and> (\<exists>k'. define_selectors
        [''SelectedZoneNames'' \<mapsto> [''Upper'', ''Lower''],
         ''SelectedRegionNames'' \<mapsto> [''East''], ''RegionProperty'' \<mapsto> [],
         ''SelectedFaciesNames'' \<mapsto> [''Sand'']] = Inl (KeyError k'))"
proof -
  have a: "\<exists>sel. define_selectors
        [''SelectedZoneNames'' \<mapsto> [''Upper'', ''Lower''],
         ''SelectedRegionNames'' \<mapsto> [''East''], ''RegionProperty'' \<mapsto> [],
         ''SelectedFaciesNames'' \<mapsto> [''Sand''], ''FaciesProperty'' \<mapsto> [''Grid'', ''Facies'']]
      = Inr (sel, [''No selectors for Region''])
     \<and> sel ''Region'' = None
     \<and> sel ''Facies'' = Some (Selector [''Sand''] (Some ''Facies''))
     \<and> sel ''Zone'' = Some (Selector [''Upper'', ''Lower''] None)"
    using define_selectors_index_failure
      [of "[''SelectedZoneNames'' \<mapsto> [''Upper'', ''Lower''],
         ''SelectedRegionNames'' \<mapsto> [''East''], ''RegionProperty'' \<mapsto> [],
         ''SelectedFaciesNames'' \<mapsto> [''Sand''], ''FaciesProperty'' \<mapsto> [''Grid'', ''Facies'']]"
         "[''Upper'', ''Lower'']" "[''East'']" "[]" "[''Sand'']" "[''Grid'', ''Facies'']"]
    by simp
  have b: "\<exists>k'. define_selectors
        [''SelectedZoneNames'' \<mapsto> [''Upper'', ''Lower''],
         ''SelectedRegionNames'' \<mapsto> [''East''], ''RegionProperty'' \<mapsto> [],
         ''SelectedFaciesNames'' \<mapsto> [''Sand'']] = Inl (KeyError k')"
    using define_selectors_index_failure
      [of "[''SelectedZoneNames'' \<mapsto> [''Upper'', ''Lower''],
         ''SelectedRegionNames'' \<mapsto> [''East''], ''RegionProperty'' \<mapsto> [],
         ''SelectedFaciesNames'' \<mapsto> [''Sand'']]" _ _ _ _ _ "''FaciesProperty''"]
    by simp
  from a b show ?thesis by blast
qed

text \<open>
  The claim as given fails for an absent \<^verbatim>\<open>RegionProperty\<close>: the lookup raises
  \<^verbatim>\<open>KeyError\<close>, which the handler for \<^verbatim>\<open>IndexError\<close> lets through.
\<close>

theorem define_selectors_absent_key_counterexample:
  "define_selectors
     [''SelectedZoneNames'' \<mapsto> [''Upper'', ''Lower''],
      ''SelectedRegionNames'' \<mapsto> [''East''],
      ''SelectedFaciesNames'' \<mapsto> [''Sand''], ''FaciesProperty'' \<mapsto> [''Grid'', ''Facies'']]
   = Inl (KeyError ''RegionProperty'')"
  by (simp add: define_selectors_def possible_selectors_def selector_try_cases)

text \<open>
  C7. Every result of the selector resolver maps \<^verbatim>\<open>Zone\<close> to the entry holding the
  input's \<^verbatim>\<open>SelectedZoneNames\<close> as filters and no parameter, and maps the top-level
  key \<^verbatim>\<open>parameter\<close> to the string \<^verbatim>\<open>subgrids\<close>; the final update overrides
  whatever the loop stored. A result exists whenever the four \<^verbatim>\<open>Region\<close> and
  \<^verbatim>\<open>Facies\<close> keys are present next to \<^verbatim>\<open>SelectedZoneNames\<close>.
\<close>

theorem define_selectors_zone:
  assumes "in_dict ''SelectedZoneNames'' = Some zone_names"
  shows "(\<forall>sel warnings. define_selectors in_dict = Inr (sel, warnings) \<longrightarrow>
            sel ''Zone'' = Some (Selector zone_names None) \<and>
            parameter (the (sel ''Zone'')) = None \<and>
            sel ''parameter'' = Some (Literal ''subgrids''))
     \<and> (in_dict ''SelectedRegionNames'' \<noteq> None \<and> in_dict ''RegionProperty'' \<noteq> None \<and>
        in_dict ''SelectedFaciesNames'' \<noteq> None \<and> in_dict ''FaciesProperty'' \<noteq> None \<longrightarrow>
          (\<exists>sel warnings. define_selectors in_dict = Inr (sel, warnings)))"
proof (intro conjI allI impI)
  fix sel warnings
  assume "define_selectors in_dict = Inr (sel, warnings)"
  from define_selectors_result [where in_dict = in_dict, OF this] assms
  show "sel ''Zone'' = Some (Selector zone_names None)"
    and "parameter (the (sel ''Zone'')) = None"
    and "sel ''parameter'' = Some (Literal ''subgrids'')"
    by auto
next
  assume "in_dict ''SelectedRegionNames'' \<noteq> None \<and> in_dict ''RegionProperty'' \<noteq> None \<and>
        in_dict ''SelectedFaciesNames'' \<noteq> None \<and> in_dict ''FaciesProperty'' \<noteq> None"
  then obtain rn rp fn fp where
    "in_dict ''SelectedRegionNames'' = Some rn" "in_dict ''RegionProperty'' = Some rp"
    "in_dict ''SelectedFaciesNames'' = Some fn" "in_dict ''FaciesProperty'' = Some fp"
    by auto
  from define_selectors_present [where in_dict = in_dict, OF assms this]
  show "\<exists>sel warnings. define_selectors in_dict = Inr (sel, warnings)"
    by blast
qed

theorem define_selectors_zone_witness:
  "[''SelectedZoneNames'' \<mapsto> [''Upper'', ''Lower''],
    ''SelectedRegionNames'' \<mapsto> [''East''], ''RegionProperty'' \<mapsto> [''Grid'', ''Regions''],
    ''SelectedFaciesNames'' \<mapsto> [''Sand''], ''FaciesProperty'' \<mapsto> [''Grid'', ''Facies'']]
      ''SelectedZoneNames'' = Some [''Upper'', ''Lower'']
   \<and> (\<exists>sel warnings. define_selectors
        [''SelectedZoneNames'' \<mapsto> [''Upper'', ''Lower''],
         ''SelectedRegionNames'' \<mapsto> [''East''], ''RegionProperty'' \<mapsto> [''Grid'', ''Regions''],
         ''SelectedFaciesNames'' \<mapsto> [''Sand''], ''FaciesProperty'' \<mapsto> [''Grid'', ''Facies'']]
       = Inr (sel, warnings)
     \<and> sel ''Zone'' = Some (Selector [''Upper'', ''Lower''] None)
     \<and> sel ''parameter'' = Some (Literal ''subgrids''))"
proof -
  let ?d = "[''SelectedZoneNames'' \<mapsto> [''Upper'', ''Lower''],
         ''SelectedRegionNames'' \<mapsto> [''East''], ''RegionProperty'' \<mapsto> [''Grid'', ''Regions''],
         ''SelectedFaciesNames'' \<mapsto> [''Sand''], ''FaciesProperty'' \<mapsto> [''Grid'', ''Facies'']]"
  have z: "?d ''SelectedZoneNames'' = Some [''Upper'', ''Lower'']" by simp
  have keys: "?d ''SelectedRegionNames'' \<noteq> None \<and> ?d ''RegionProperty'' \<noteq> None \<and>
        ?d ''SelectedFaciesNames'' \<noteq> None \<and> ?d ''FaciesProperty'' \<noteq> None"
    by simp
  from define_selectors_zone [where in_dict = ?d, OF z] keys
  have "\<exists>sel warnings. define_selectors ?d = Inr (sel, warnings)
     \<and> sel ''Zone'' = Some (Selector [''Upper'', ''Lower''] None)
     \<and> sel ''parameter'' = Some (Literal ''subgrids'')"
    by blast
  with z show ?thesis by blast
qed

section \<open>Properties of the variables\<close>

lemma first_occurrences_snoc:
  "first_occurrences (xs @ [x]) =
     (if x \<in> set xs then first_occurrences xs else first_occurrences xs @ [x])"
  by (simp add: first_occurrences_def)

lemma set_first_occurrences: "set (first_occurrences xs) = set xs"
  by (simp add: first_occurrences_def)

lemma distinct_first_occurrences: "distinct (first_occurrences xs)"
  by (simp add: first_occurrences_def)

lemma count_list_distinct: "distinct xs \<Longrightarrow> x \<in> set xs \<Longrightarrow> count_list xs x = 1"
  by (induction xs) auto

lemma variable_body_cases:
  "variable_body v (defs, ps) =
     (if DataInput v \<noteq> [] then
        (if hd (DataInput v) = [] then Inl IndexError
         else Inr (defs(Name v \<mapsto>
                     \<lparr>applies = InputType v, values_of = Property (data_property v)\<rparr>),
                   if data_property v \<in> set ps then ps else ps @ [data_property v]))
      else Inr (defs(Name v \<mapsto> \<lparr>applies = InputType v,
                      values_of = (if InputSource v = ''REGION_MODEL'' then Hidden
                                   else Table (TableValues v))\<rparr>), ps))"
  by (cases "DataInput v")
     (simp_all add: variable_body_def first_item_def last_item_def data_property_def Let_def)

lemma var_group_loop_append:
  "var_group_loop (xs @ ys) acc =
     (case var_group_loop xs acc of Inl e \<Rightarrow> Inl e | Inr acc' \<Rightarrow> var_group_loop ys acc')"
  by (induction xs arbitrary: acc) (simp_all split: sum.splits)

lemma var_groups_loop_concat:
  "var_groups_loop groups acc = var_group_loop (concat groups) acc"
  by (induction groups arbitrary: acc) (simp_all add: var_group_loop_append split: sum.splits)

text \<open>
  The second accumulator: started on the first occurrences of some list, the loop ends
  on the first occurrences of that list followed by the names the variables refer to.
\<close>

lemma var_group_loop_parameters:
  assumes "var_group_loop vars (defs, ps) = Inr (defs', ps')"
    and "ps = first_occurrences qs"
  shows "ps' = first_occurrences (qs @ referenced vars)"
  using assms
proof (induction vars arbitrary: defs ps qs)
  case Nil
  then show ?case by (simp add: referenced_def)
next
  case (Cons v vars)
  show ?case
  proof (cases "DataInput v = []")
    case True
    with Cons.prems have "var_group_loop vars (defs(Name v \<mapsto> \<lparr>applies = InputType v,
                      values_of = (if InputSource v = ''REGION_MODEL'' then Hidden
                                   else Table (TableValues v))\<rparr>), ps) = Inr (defs', ps')"
      by (simp add: variable_body_cases)
    from Cons.IH [OF this Cons.prems(2)] True show ?thesis
      by (simp add: referenced_def)
  next
    case False
    let ?p = "data_property v"
    let ?ps1 = "if ?p \<in> set ps then ps else ps @ [?p]"
    from False Cons.prems(1) have ne: "hd (DataInput v) \<noteq> []"
      by (auto simp add: variable_body_cases split: if_splits)
    with False Cons.prems(1) have run: "var_group_loop vars
        (defs(Name v \<mapsto> \<lparr>applies = InputType v, values_of = Property ?p\<rparr>), ?ps1)
          = Inr (defs', ps')"
      by (simp add: variable_body_cases)
    have "?ps1 = first_occurrences (qs @ [?p])"
      using Cons.prems(2) by (simp add: first_occurrences_snoc set_first_occurrences)
    from Cons.IH [OF run this] False show ?thesis
      by (simp add: referenced_def)
  qed
qed

text \<open>The first accumulator: a name no later variable carries keeps its entry.\<close>

lemma var_group_loop_keeps:
  assumes "var_group_loop vars (defs, ps) = Inr (defs', ps')"
    and "\<forall>u\<in>set vars. Name u \<noteq> n"
  shows "defs' n = defs n"
  using assms
proof (induction vars arbitrary: defs ps)
  case Nil
  then show ?case by simp
next
  case (Cons v vars)
  from Cons.prems(1) obtain defs1 ps1 where
    body: "variable_body v (defs, ps) = Inr (defs1, ps1)"
    and rest: "var_group_loop vars (defs1, ps1) = Inr (defs', ps')"
    by (auto split: sum.splits)
  from body Cons.prems(2) have "defs1 n = defs n"
    by (auto simp add: variable_body_cases split: if_splits)
  moreover from Cons.IH [OF rest] Cons.prems(2) have "defs' n = defs1 n"
    by simp
  ultimately show ?case by simp
qed

text \<open>The loop returns when no non-empty \<^verbatim>\<open>DataInput\<close> starts with an empty path.\<close>

lemma var_group_loop_returns:
  assumes "\<forall>v\<in>set vars. DataInput v \<noteq> [] \<longrightarrow> hd (DataInput v) \<noteq> []"
  shows "\<exists>defs' ps'. var_group_loop vars (defs, ps) = Inr (defs', ps')"
  using assms
proof (induction vars arbitrary: defs ps)
  case Nil
  then show ?case by simp
next
  case (Cons v vars)
  then show ?case
    by (simp add: variable_body_cases)
qed

lemma define_variables_flat:
  "define_variables variables_input =
     var_group_loop (concat (map snd variables_input)) (Map.empty, [])"
  by (simp add: define_variables_def var_groups_loop_concat)

lemma define_variables_parameters:
  assumes "define_variables variables_input = Inr (var_defs, additional)"
  shows "additional = first_occurrences (referenced (concat (map snd variables_input)))"
proof -
  have "[] = first_occurrences ([] :: string list)"
    by (simp add: first_occurrences_def)
  from var_group_loop_parameters [OF assms [unfolded define_variables_flat] this]
  show ?thesis by simp
qed

lemma define_variables_last_write:
  assumes run: "define_variables variables_input = Inr (var_defs, additional)"
    and split: "concat (map snd variables_input) = before @ v # after"
    and later: "\<forall>u\<in>set after. Name u \<noteq> Name v"
    and linked: "DataInput v \<noteq> []"
  shows "var_defs (Name v) =
           Some \<lparr>applies = InputType v, values_of = Property (data_property v)\<rparr>
         \<and> data_property v \<in> set additional"
proof -
  from run have loop: "var_group_loop (before @ v # after) (Map.empty, []) = Inr (var_defs, additional)"
    by (simp add: define_variables_flat split)
  then obtain defs0 ps0 where
    pre: "var_group_loop before (Map.empty, []) = Inr (defs0, ps0)"
    and post: "var_group_loop (v # after) (defs0, ps0) = Inr (var_defs, additional)"
    by (auto simp add: var_group_loop_append split: sum.splits)
  from post obtain defs1 ps1 where
    body: "variable_body v (defs0, ps0) = Inr (defs1, ps1)"
    and rest: "var_group_loop after (defs1, ps1) = Inr (var_defs, additional)"
    by (auto split: sum.splits)
  from body linked have "defs1 (Name v) =
      Some \<lparr>applies = InputType v, values_of = Property (data_property v)\<rparr>"
    by (auto simp add: variable_body_cases split: if_splits)
  with var_group_loop_keeps [OF rest later] have entry: "var_defs (Name v) =
      Some \<lparr>applies = InputType v, values_of = Property (data_property v)\<rparr>"
    by simp
  from define_variables_parameters [OF run] linked
  have "data_property v \<in> set additional"
    by (simp add: split set_first_occurrences referenced_def)
  with entry show ?thesis by simp
qed

lemma extend_properties: "properties (collated.extend c ext) = properties c"
  by (simp add: collated.defs)

lemma post_init_properties:
  assumes "post_init prms project = Inr (obj, warnings)"
  shows "\<exists>outp vars. first_item (Output prms) = Inr outp
      \<and> first_item (Variables prms) = Inr vars
      \<and> properties (report_output obj) =
          [prfx @ lower (Type calc).
             calc \<leftarrow> Calculations outp, prfx \<leftarrow> define_prefixes outp, CreateProperty calc]
          @ first_occurrences (referenced (concat (map snd vars)))"
proof -
  from assms obtain inp outp vars rep w1 sel w2 rep_out var_defs additional where
    outp: "first_item (Output prms) = Inr outp"
    and vars: "first_item (Variables prms) = Inr vars"
    and out: "define_output outp sel = Inr rep_out"
    and dv: "define_variables vars = Inr (var_defs, additional)"
    and obj: "report_output obj =
        collated.extend (rep_out\<lparr>properties := properties rep_out @ additional\<rparr>) \<lparr>table = rep\<rparr>"
    by (auto simp add: post_init_def Let_def split: sum.splits prod.splits)
  from out have "properties rep_out =
      [prfx @ lower (Type calc).
         calc \<leftarrow> Calculations outp, prfx \<leftarrow> define_prefixes outp, CreateProperty calc]"
    by (auto simp add: define_output_eq split: sum.splits)
  with define_variables_parameters [OF dv] obj outp vars show ?thesis
    by (simp add: extend_properties)
qed

text \<open>
  C1, as the code has it. For a variable entry whose \<^verbatim>\<open>DataInput\<close> is not empty and
  starts with a non-empty element, the loop body stores under the variable's name the
  values \<^verbatim>\<open>{property: p}\<close> where \<open>p\<close> is the last element of the FIRST element of
  \<^verbatim>\<open>DataInput\<close> (\<^verbatim>\<open>DataInput[0][-1]\<close>), and appends \<open>p\<close> to the additional
  properties unless it is recorded already. For the whole resolver: when no linked
  variable starts with an empty path it returns, the entry of a variable that no later
  variable shares its name with is this one, and \<open>p\<close> is among the additional
  properties.
\<close>

theorem define_variables_data_input:
  assumes "DataInput v \<noteq> []" and "hd (DataInput v) \<noteq> []"
  shows "variable_body v (defs, ps) =
      Inr (defs(Name v \<mapsto>
             \<lparr>applies = InputType v, values_of = Property (last (hd (DataInput v)))\<rparr>),
           if last (hd (DataInput v)) \<in> set ps then ps else ps @ [last (hd (DataInput v))])
    \<and> ((\<forall>u\<in>set (concat (map snd variables_input)).
           DataInput u \<noteq> [] \<longrightarrow> hd (DataInput u) \<noteq> [])
        \<and> concat (map snd variables_input) = before @ v # after
        \<and> (\<forall>u\<in>set after. Name u \<noteq> Name v)
       \<longrightarrow> (\<exists>var_defs additional.
             define_variables variables_input = Inr (var_defs, additional)
           \<and> var_defs (Name v) =
               Some \<lparr>applies = InputType v, values_of = Property (last (hd (DataInput v)))\<rparr>
           \<and> last (hd (DataInput v)) \<in> set additional))"
proof (intro conjI impI)
  show "variable_body v (defs, ps) =
      Inr (defs(Name v \<mapsto>
             \<lparr>applies = InputType v, values_of = Property (last (hd (DataInput v)))\<rparr>),
           if last (hd (DataInput v)) \<in> set ps then ps else ps @ [last (hd (DataInput v))])"
    using assms by (simp add: variable_body_cases data_property_def)
next
  assume h: "(\<forall>u\<in>set (concat (map snd variables_input)).
           DataInput u \<noteq> [] \<longrightarrow> hd (DataInput u) \<noteq> [])
        \<and> concat (map snd variables_input) = before @ v # after
        \<and> (\<forall>u\<in>set after. Name u \<noteq> Name v)"
  then have wf: "\<forall>u\<in>set (concat (map snd variables_input)).
           DataInput u \<noteq> [] \<longrightarrow> hd (DataInput u) \<noteq> []"
    and split: "concat (map snd variables_input) = before @ v # after"
    and later: "\<forall>u\<in>set after. Name u \<noteq> Name v"
    by blast+
  from var_group_loop_returns [OF wf] obtain var_defs additional where
    run: "define_variables variables_input = Inr (var_defs, additional)"
    unfolding define_variables_flat by blast
  from define_variables_last_write [OF run split later assms(1)] run
  show "\<exists>var_defs additional.
             define_variables variables_input = Inr (var_defs, additional)
           \<and> var_defs (Name v) =
               Some \<lparr>applies = InputType v, values_of = Property (last (hd (DataInput v)))\<rparr>
           \<and> last (hd (DataInput v)) \<in> set additional"
    by (auto simp add: data_property_def)
qed

text \<open>
  Two groups of one variable each; the second variable has two data inputs and gets the
  last name of the first of them.
\<close>

theorem define_variables_data_input_witness:
  "DataInput \<lparr>Name = ''Sw'', InputSource = ''TABLE'', TableValues = [1::int],
      InputType = ''zone'', DataInput = [[''Grid'', ''SWAT''], [''Grid'', ''SWL'']]\<rparr> \<noteq> []
   \<and> hd (DataInput \<lparr>Name = ''Sw'', InputSource = ''TABLE'', TableValues = [1::int],
      InputType = ''zone'', DataInput = [[''Grid'', ''SWAT''], [''Grid'', ''SWL'']]\<rparr>) \<noteq> []
   \<and> (\<exists>var_defs additional.
        define_variables
          [(''Porosity'', [\<lparr>Name = ''Por'', InputSource = ''TABLE'', TableValues = [2::int],
              InputType = ''zone'', DataInput = [[''Grid'', ''PORO'']]\<rparr>]),
           (''Saturation'', [\<lparr>Name = ''Sw'', InputSource = ''TABLE'', TableValues = [1::int],
              InputType = ''zone'', DataInput = [[''Grid'', ''SWAT''], [''Grid'', ''SWL'']]\<rparr>])]
          = Inr (var_defs, additional)
      \<and> var_defs ''Sw'' = Some \<lparr>applies = ''zone'', values_of = Property ''SWAT''\<rparr>
      \<and> ''SWAT'' \<in> set additional)"
proof -
  let ?por = "\<lparr>Name = ''Por'', InputSource = ''TABLE'', TableValues = [2::int],
              InputType = ''zone'', DataInput = [[''Grid'', ''PORO'']]\<rparr>"
  let ?sw = "\<lparr>Name = ''Sw'', InputSource = ''TABLE'', TableValues = [1::int],
              InputType = ''zone'', DataInput = [[''Grid'', ''SWAT''], [''Grid'', ''SWL'']]\<rparr>"
  have a: "DataInput ?sw \<noteq> []" and b: "hd (DataInput ?sw) \<noteq> []"
    by simp_all
  have "\<exists>var_defs additional.
        define_variables [(''Porosity'', [?por]), (''Saturation'', [?sw])]
          = Inr (var_defs, additional)
      \<and> var_defs ''Sw'' = Some \<lparr>applies = ''zone'', values_of = Property ''SWAT''\<rparr>
      \<and> ''SWAT'' \<in> set additional"
    using define_variables_data_input [OF a b,
        of Map.empty "[]" "[(''Porosity'', [?por]), (''Saturation'', [?sw])]" "[?por]" "[]"]
    by simp
  with a b show ?thesis by blast
qed

text \<open>
  The claim as given fails on that variable: \<^verbatim>\<open>DataInput[-1][-1]\<close> is \<^verbatim>\<open>SWL\<close>,
  the resolver records \<^verbatim>\<open>SWAT\<close>.
\<close>

theorem define_variables_last_element_counterexample:
  "map_sum id snd
     (define_variables
        [(''Saturation'', [\<lparr>Name = ''Sw'', InputSource = ''TABLE'', TableValues = [1::int],
            InputType = ''zone'', DataInput = [[''Grid'', ''SWAT''], [''Grid'', ''SWL'']]\<rparr>])])
     = Inr [''SWAT'']
   \<and> variable_body
       \<lparr>Name = ''Sw'', InputSource = ''TABLE'', TableValues = [1::int],
        InputType = ''zone'', DataInput = [[''Grid'', ''SWAT''], [''Grid'', ''SWL'']]\<rparr>
       (Map.empty, [])
     = Inr ([''Sw'' \<mapsto> \<lparr>applies = ''zone'', values_of = Property ''SWAT''\<rparr>], [''SWAT''])
   \<and> last (last [[''Grid'', ''SWAT''], [''Grid'', ''SWL'']]) = ''SWL''
   \<and> ''SWAT'' \<noteq> ''SWL''"
  by (simp add: define_variables_def variable_body_cases data_property_def)

text \<open>
  C6. The additional properties returned by the variable resolver are the names its
  linked variables refer to, each kept at its first occurrence and nowhere else: the
  list has no duplicates, a name referred to by several variables occurs exactly once,
  and the names are stored as they are, without any prefix. The export plan's
  properties are the prefixed names of the calculations followed by exactly this list.
\<close>

theorem define_variables_additional:
  "(define_variables variables_input = Inr (var_defs, additional) \<longrightarrow>
      additional = first_occurrences (referenced (concat (map snd variables_input)))
    \<and> distinct additional
    \<and> (\<forall>p\<in>set (referenced (concat (map snd variables_input))). count_list additional p = 1))
   \<and> (post_init prms project = Inr (obj, warnings) \<longrightarrow>
       (\<exists>outp vars. first_item (Output prms) = Inr outp
         \<and> first_item (Variables prms) = Inr vars
         \<and> properties (report_output obj) =
             [prfx @ lower (Type calc).
                calc \<leftarrow> Calculations outp, prfx \<leftarrow> define_prefixes outp, CreateProperty calc]
             @ first_occurrences (referenced (concat (map snd vars)))))"
proof (intro conjI impI)
  assume run: "define_variables variables_input = Inr (var_defs, additional)"
  from define_variables_parameters [OF run]
  show eq: "additional = first_occurrences (referenced (concat (map snd variables_input)))" .
  then show d: "distinct additional"
    by (simp add: distinct_first_occurrences)
  from eq d show "\<forall>p\<in>set (referenced (concat (map snd variables_input))).
      count_list additional p = 1"
    by (simp add: count_list_distinct set_first_occurrences)
next
  assume "post_init prms project = Inr (obj, warnings)"
  from post_init_properties [OF this]
  show "\<exists>outp vars. first_item (Output prms) = Inr outp
         \<and> first_item (Variables prms) = Inr vars
         \<and> properties (report_output obj) =
             [prfx @ lower (Type calc).
                calc \<leftarrow> Calculations outp, prfx \<leftarrow> define_prefixes outp, CreateProperty calc]
             @ first_occurrences (referenced (concat (map snd vars)))" .
qed

text \<open>
  Three variables in two groups, two of them linked to \<^verbatim>\<open>PORO\<close>; a job whose
  output asks for the property of one calculation with the oil prefix.
\<close>

theorem define_variables_additional_witness:
  "(\<exists>var_defs additional.
      define_variables
        [(''Porosity'', [\<lparr>Name = ''Por'', InputSource = ''TABLE'', TableValues = [2::int],
            InputType = ''zone'', DataInput = [[''a'', ''b'', ''PORO'']]\<rparr>]),
         (''NetGross'', [\<lparr>Name = ''Ntg'', InputSource = ''REGION_MODEL'', TableValues = [1],
            InputType = ''region'', DataInput = []\<rparr>,
          \<lparr>Name = ''Cut'', InputSource = ''TABLE'', TableValues = [],
            InputType = ''zone'', DataInput = [[''Grid'', ''PORO'']]\<rparr>])]
        = Inr (var_defs, additional)
    \<and> additional = [''PORO'']
    \<and> count_list additional ''PORO'' = 1)
   \<and> (\<exists>obj warnings.
      post_init
        \<lparr>Input = [[''SelectedZoneNames'' \<mapsto> [''Upper''],
                   ''SelectedRegionNames'' \<mapsto> [], ''RegionProperty'' \<mapsto> [],
                   ''SelectedFaciesNames'' \<mapsto> [], ''FaciesProperty'' \<mapsto> []]],
         Output = [\<lparr>Prefix = [], UseGas = False, UseOil = True, MapOutput = ''Clipboard'',
                    Calculations = [\<lparr>Type = ''Stoiip'', CreateProperty = True,
                                     CreateZoneMap = False\<rparr>]\<rparr>],
         Variables = [[(''Porosity'', [\<lparr>Name = ''Por'', InputSource = ''TABLE'',
                         TableValues = [2::int], InputType = ''zone'',
                         DataInput = [[''a'', ''b'', ''PORO'']]\<rparr>]),
                       (''NetGross'', [\<lparr>Name = ''Cut'', InputSource = ''TABLE'',
                         TableValues = [], InputType = ''zone'',
                         DataInput = [[''Grid'', ''PORO'']]\<rparr>])]],
         Report = [[''ReportTableName'' \<mapsto> ''Volumes'']]\<rparr>
        \<lparr>volumetric_tables = (Map.empty :: string \<rightharpoonup> int list frame)\<rparr>
        = Inr (obj, warnings)
    \<and> properties (report_output obj) = [''Oil_stoiip'', ''PORO''])"
proof -
  let ?vi = "[(''Porosity'', [\<lparr>Name = ''Por'', InputSource = ''TABLE'', TableValues = [2::int],
            InputType = ''zone'', DataInput = [[''a'', ''b'', ''PORO'']]\<rparr>]),
         (''NetGross'', [\<lparr>Name = ''Ntg'', InputSource = ''REGION_MODEL'', TableValues = [1],
            InputType = ''region'', DataInput = []\<rparr>,
          \<lparr>Name = ''Cut'', InputSource = ''TABLE'', TableValues = [],
            InputType = ''zone'', DataInput = [[''Grid'', ''PORO'']]\<rparr>])]"
  let ?prms = "\<lparr>Input = [[''SelectedZoneNames'' \<mapsto> [''Upper''],
                   ''SelectedRegionNames'' \<mapsto> [], ''RegionProperty'' \<mapsto> [],
                   ''SelectedFaciesNames'' \<mapsto> [], ''FaciesProperty'' \<mapsto> []]],
         Output = [\<lparr>Prefix = [], UseGas = False, UseOil = True, MapOutput = ''Clipboard'',
                    Calculations = [\<lparr>Type = ''Stoiip'', CreateProperty = True,
                                     CreateZoneMap = False\<rparr>]\<rparr>],
         Variables = [[(''Porosity'', [\<lparr>Name = ''Por'', InputSource = ''TABLE'',
                         TableValues = [2::int], InputType = ''zone'',
                         DataInput = [[''a'', ''b'', ''PORO'']]\<rparr>]),
                       (''NetGross'', [\<lparr>Name = ''Cut'', InputSource = ''TABLE'',
                         TableValues = [], InputType = ''zone'',
                         DataInput = [[''Grid'', ''PORO'']]\<rparr>])]],
         Report = [[''ReportTableName'' \<mapsto> ''Volumes'']]\<rparr>"
  let ?project = "\<lparr>volumetric_tables = (Map.empty :: string \<rightharpoonup> int list frame)\<rparr>"
  obtain var_defs additional where
    run: "define_variables ?vi = Inr (var_defs, additional)"
    by (simp add: define_variables_def variable_body_cases)
  have sel: "\<exists>sel w. define_selectors (hd (Input ?prms)) = Inr (sel, w)
               \<and> sel ''Zone'' = Some (Selector [''Upper''] None)"
    by (simp add: define_selectors_def possible_selectors_def selector_try_cases getitem_def)
  obtain obj warnings where
    init: "post_init ?prms ?project = Inr (obj, warnings)"
    using sel
    by (auto simp add: post_init_def first_item_def get_volumetrics_def volumes_try_def
          getitem_def define_output_eq zone_filters_def
          define_variables_def variable_body_cases)
  from define_variables_additional [of ?vi var_defs additional ?prms ?project obj warnings]
    run init
  have "additional = [''PORO''] \<and> count_list additional ''PORO'' = 1
      \<and> properties (report_output obj) = [''Oil_stoiip'', ''PORO'']"
    by (simp add: first_occurrences_def referenced_def data_property_def first_item_def
          define_prefixes_eq lower_def lower_char_def)
  with run init show ?thesis by blast
qed

section \<open>Properties of the volumetrics table\<close>

lemma get_volumetrics_cases:
  "get_volumetrics (r # rest) project =
     Inr (case r ''ReportTableName'' of
            None \<Rightarrow> (None, [''No volume table attached''])
          | Some table_name \<Rightarrow>
              (case volumetric_tables project table_name of
                 None \<Rightarrow> (None, [''No volume table attached''])
               | Some t \<Rightarrow>
                   if ''REAL'' \<in> set (map fst (rename RENAME_VOLUMES t))
                   then (Some (filter (\<lambda>(l, col). l \<noteq> ''REAL'') (rename RENAME_VOLUMES t)), [])
                   else (None, [''No volume table attached''])))"
  by (simp add: get_volumetrics_def volumes_try_def first_item_def getitem_def drop_column_def
        split: option.splits)

lemma get_volumetrics_Nil: "get_volumetrics [] project = Inl IndexError"
  by (simp add: get_volumetrics_def volumes_try_def first_item_def)

text \<open>The columns that end up with the label \<^verbatim>\<open>REAL\<close>.\<close>

lemma rename_label_REAL:
  "rename_label RENAME_VOLUMES label = ''REAL'' \<longleftrightarrow>
     label = ''REAL'' \<or> label = ''Proj. real.''"
  by (simp add: rename_label_def RENAME_VOLUMES_def)

text \<open>
  C8, as the code has it. For every report configuration that is not empty, the loader
  returns and does not raise: it returns no table, with a warning, when the name under
  \<^verbatim>\<open>ReportTableName\<close> is not a key of the project's tables, and it returns the named
  table with the columns renamed and the \<^verbatim>\<open>REAL\<close> columns dropped when the table
  exists and has such a column after renaming. Whatever it returns is one of the two.
\<close>

theorem get_volumetrics_table_or_none:
  assumes "report_params \<noteq> []"
  shows "\<exists>volumes warnings. get_volumetrics report_params project = Inr (volumes, warnings)
    \<and> (\<forall>name. hd report_params ''ReportTableName'' = Some name
           \<and> volumetric_tables project name = None
         \<longrightarrow> volumes = None \<and> warnings = [''No volume table attached''])
    \<and> (\<forall>name t. hd report_params ''ReportTableName'' = Some name
           \<and> volumetric_tables project name = Some t
           \<and> ''REAL'' \<in> set (map fst (rename RENAME_VOLUMES t))
         \<longrightarrow> volumes = Some (filter (\<lambda>(l, col). l \<noteq> ''REAL'') (rename RENAME_VOLUMES t))
             \<and> warnings = [])
    \<and> (volumes = None \<and> warnings = [''No volume table attached'']
       \<or> (\<exists>name t. hd report_params ''ReportTableName'' = Some name
             \<and> volumetric_tables project name = Some t
             \<and> volumes = Some (filter (\<lambda>(l, col). l \<noteq> ''REAL'') (rename RENAME_VOLUMES t))))"
proof -
  from assms obtain r rest where rp: "report_params = r # rest"
    by (cases report_params) auto
  show ?thesis
    unfolding rp get_volumetrics_cases
    by (auto split: option.splits)
qed

text \<open>A table of three columns that is found, and a name that is not.\<close>

theorem get_volumetrics_table_or_none_witness:
  "[[''ReportTableName'' \<mapsto> ''Volumes'']] \<noteq> []
   \<and> get_volumetrics [[''ReportTableName'' \<mapsto> ''Volumes'']]
       \<lparr>volumetric_tables = [''Volumes'' \<mapsto>
          [(''Proj. real.'', [0::int, 0]), (''Zone'', [1, 2]), (''STOIIP'', [10, 20])]]\<rparr>
     = Inr (Some [(''ZONE'', [1, 2]), (''STOIIP_OIL'', [10, 20])], [])
   \<and> get_volumetrics [[''ReportTableName'' \<mapsto> ''Other'']]
       \<lparr>volumetric_tables = [''Volumes'' \<mapsto>
          [(''Proj. real.'', [0::int, 0]), (''Zone'', [1, 2]), (''STOIIP'', [10, 20])]]\<rparr>
     = Inr (None, [''No volume table attached''])"
proof -
  let ?t = "[(''Proj. real.'', [0::int, 0]), (''Zone'', [1, 2]), (''STOIIP'', [10, 20])]"
  have ne: "[[''ReportTableName'' \<mapsto> ''Volumes'']] \<noteq> []"
    and ne': "[[''ReportTableName'' \<mapsto> ''Other'']] \<noteq> []"
    by simp_all
  have rn: "rename RENAME_VOLUMES ?t
      = [(''REAL'', [0, 0]), (''ZONE'', [1, 2]), (''STOIIP_OIL'', [10, 20])]"
    by (simp add: rename_def rename_label_def RENAME_VOLUMES_def)
  from get_volumetrics_table_or_none [OF ne, of "\<lparr>volumetric_tables = [''Volumes'' \<mapsto> ?t]\<rparr>"]
  have a: "get_volumetrics [[''ReportTableName'' \<mapsto> ''Volumes'']]
       \<lparr>volumetric_tables = [''Volumes'' \<mapsto> ?t]\<rparr>
     = Inr (Some [(''ZONE'', [1, 2]), (''STOIIP_OIL'', [10, 20])], [])"
    by (auto simp add: rn)
  from get_volumetrics_table_or_none [OF ne', of "\<lparr>volumetric_tables = [''Volumes'' \<mapsto> ?t]\<rparr>"]
  have b: "get_volumetrics [[''ReportTableName'' \<mapsto> ''Other'']]
       \<lparr>volumetric_tables = [''Volumes'' \<mapsto> ?t]\<rparr>
     = Inr (None, [''No volume table attached''])"
    by auto
  from ne a b show ?thesis by blast
qed

text \<open>
  The claim as given fails on the empty report configuration, where the loader raises
  instead of returning.
\<close>

theorem get_volumetrics_empty_counterexample:
  "get_volumetrics []
     \<lparr>volumetric_tables = [''Volumes'' \<mapsto> [(''Proj. real.'', [0::int]), (''Zone'', [1])]]\<rparr>
   = Inl IndexError"
  by (simp add: get_volumetrics_def volumes_try_def first_item_def)

text \<open>
  C9. When the report names a table that exists and the table has no column labelled
  \<^verbatim>\<open>REAL\<close> after the rename, dropping the column raises the key error inside the
  \<^verbatim>\<open>try\<close>, the handler of the missing table catches it, and the loader returns no
  table with the warning of a missing table.
\<close>

theorem get_volumetrics_no_real_column:
  assumes "report_params = r # rest"
    and "r ''ReportTableName'' = Some name"
    and "volumetric_tables project name = Some t"
    and "''REAL'' \<notin> set (map fst (rename RENAME_VOLUMES t))"
  shows "volumes_try report_params project = Inl (KeyError ''REAL'')
    \<and> get_volumetrics report_params project = Inr (None, [''No volume table attached''])"
  using assms
  by (simp add: get_volumetrics_def volumes_try_def first_item_def getitem_def drop_column_def)

theorem get_volumetrics_no_real_column_witness:
  "''REAL'' \<notin> set (map fst (rename RENAME_VOLUMES [(''Zone'', [1::int, 2]), (''STOIIP'', [10, 20])]))
   \<and> get_volumetrics [[''ReportTableName'' \<mapsto> ''Volumes'']]
       \<lparr>volumetric_tables = [''Volumes'' \<mapsto> [(''Zone'', [1::int, 2]), (''STOIIP'', [10, 20])]]\<rparr>
     = Inr (None, [''No volume table attached''])"
proof -
  let ?t = "[(''Zone'', [1::int, 2]), (''STOIIP'', [10, 20])]"
  have c: "''REAL'' \<notin> set (map fst (rename RENAME_VOLUMES ?t))"
    by (simp add: rename_def rename_label_def RENAME_VOLUMES_def)
  have "get_volumetrics [[''ReportTableName'' \<mapsto> ''Volumes'']]
       \<lparr>volumetric_tables = [''Volumes'' \<mapsto> ?t]\<rparr>
     = Inr (None, [''No volume table attached''])"
    using get_volumetrics_no_real_column
      [of "[[''ReportTableName'' \<mapsto> ''Volumes'']]" "[''ReportTableName'' \<mapsto> ''Volumes'']" "[]"
          "''Volumes''" "\<lparr>volumetric_tables = [''Volumes'' \<mapsto> ?t]\<rparr>" ?t, OF _ _ _ c]
    by simp
  with c show ?thesis by blast
qed

text \<open>
  C10. On an empty report configuration \<^verbatim>\<open>report_params[0]\<close> raises the index
  error, the handler for key errors does not catch it, and the loader raises. The
  construction of the export plan calls the loader without a handler of its own, so a job
  with an empty \<^verbatim>\<open>Report\<close> section ends in that error, with no table and no plan.
\<close>

theorem get_volumetrics_empty_report:
  "volumes_try [] project = Inl IndexError
   \<and> get_volumetrics [] project = Inl IndexError
   \<and> post_init (prms\<lparr>Report := []\<rparr>) project = Inl IndexError"
  by (simp add: post_init_def get_volumetrics_def volumes_try_def first_item_def
        split: list.splits sum.splits)

end
